theory Spec2Isabelle
  imports Complex_Main "HOL-Library.Multiset"
begin

section \<open>Data model (types.ts)\<close>

text \<open>
  Strings are lists of characters; a character stands for one code unit of the
  source's strings, and only code units below 256 are representable here.

  A transaction amount is a finite number. It is modelled by its exact value, a
  rational: the rounding of the source's double-precision arithmetic is not
  modelled, and the sums below are exact sums.
\<close>

datatype TransactionType = INCOME | EXPENSE

record Transaction =
  t_id :: string
  t_date :: string
  t_description :: string
  t_amount :: rat
  t_type :: TransactionType

record FinancialSummary =
  totalBalance :: rat
  totalIncome :: rat
  totalExpense :: rat
  weeklySpending :: "(string \<times> rat) list"

section \<open>Dashboard statistics (App.tsx, stats)\<close>

text \<open>
  \<^verbatim>\<open>xs.reduce((acc, t) => acc + t.amount, 0)\<close> is a left fold from 0.
\<close>

definition sumAmounts :: "Transaction list \<Rightarrow> rat" where
  "sumAmounts ts = foldl (\<lambda>acc t. acc + t_amount t) 0 ts"

text \<open>
  Dates. A time value is a number of milliseconds since the epoch, in UTC. The
  time zone of the platform is given by the two offsets of the language
  specification, in milliseconds: the offset in effect at a UTC time value, and the
  offset by which a local time value is read.
\<close>

definition msPerDay :: int where
  "msPerDay = 86400000"

record TimeZone =
  offsetAtUtc :: "int \<Rightarrow> int"
  offsetAtLocal :: "int \<Rightarrow> int"

definition localTime :: "TimeZone \<Rightarrow> int \<Rightarrow> int" where
  "localTime tz t = t + offsetAtUtc tz t"

definition utcTime :: "TimeZone \<Rightarrow> int \<Rightarrow> int" where
  "utcTime tz t = t - offsetAtLocal tz t"

text \<open>
  \<^verbatim>\<open>d.setDate(d.getDate() - i)\<close> works on the local time of \<open>d\<close>: it keeps the time
  within the day, moves the local calendar date \<open>i\<close> days back (a date below 1
  runs into the months before), and converts the local time it gets back to UTC.
\<close>

definition setDateBack :: "TimeZone \<Rightarrow> int \<Rightarrow> nat \<Rightarrow> int" where
  "setDateBack tz t i = utcTime tz (localTime tz t - int i * msPerDay)"

text \<open>
  \<^verbatim>\<open>d.toISOString().split('T')[0]\<close> is the UTC calendar date of \<open>d\<close> as text: the year
  in four digits (with a sign and six digits outside 0 to 9999), the month and the
  day in two digits. \<open>civil\<close> gives year, month and day of a day number (days since
  the epoch) in the Gregorian calendar.
\<close>

definition decimalDigit :: "int \<Rightarrow> char" where
  "decimalDigit n = ''0123456789'' ! nat (n mod 10)"

definition twoDigits :: "int \<Rightarrow> string" where
  "twoDigits n = [decimalDigit (n div 10), decimalDigit n]"

definition fourDigits :: "int \<Rightarrow> string" where
  "fourDigits n = twoDigits (n div 100) @ twoDigits n"

definition civil :: "int \<Rightarrow> int \<times> int \<times> int" where
  "civil day =
     (let z = day + 719468;
          era = z div 146097;
          doe = z mod 146097;
          yoe = (doe - doe div 1460 + doe div 36524 - doe div 146096) div 365;
          doy = doe - (365 * yoe + yoe div 4 - yoe div 100);
          mp = (5 * doy + 2) div 153;
          d = doy - (153 * mp + 2) div 5 + 1;
          m = (if mp < 10 then mp + 3 else mp - 9);
          y = yoe + era * 400 + (if m \<le> 2 then 1 else 0)
      in (y, m, d))"

definition isoDay :: "int \<Rightarrow> string" where
  "isoDay day =
     (case civil day of
        (y, m, d) \<Rightarrow>
          (if 0 \<le> y \<and> y \<le> 9999 then fourDigits y
           else (if y < 0 then ''-'' else ''+'') @ twoDigits (\<bar>y\<bar> div 10000) @ fourDigits \<bar>y\<bar>)
          @ ''-'' @ twoDigits m @ ''-'' @ twoDigits d)"

definition toISODate :: "int \<Rightarrow> string" where
  "toISODate t = isoDay (t div msPerDay)"

text \<open>
  \<^verbatim>\<open>Array.from({ length: 7 }, (_, i) => ...).reverse()\<close>: for \<open>i\<close> from 0 to 6 the
  date text of the current time moved \<open>i\<close> days back, then reversed. The seven
  calls of \<^verbatim>\<open>new Date()\<close> are taken to give the same time value \<open>now\<close>.

  The label of a bucket, \<^verbatim>\<open>new Date(date).toLocaleDateString('en-US', { weekday: 'short' })\<close>,
  is left to the platform: \<open>weekday\<close> is a parameter.
\<close>

definition last7Days :: "TimeZone \<Rightarrow> int \<Rightarrow> string list" where
  "last7Days tz now = rev (map (\<lambda>i. toISODate (setDateBack tz now i)) [0..<7])"

definition dayAmount :: "Transaction list \<Rightarrow> string \<Rightarrow> rat" where
  "dayAmount transactions date =
     sumAmounts (filter (\<lambda>t. t_date t = date \<and> t_type t = EXPENSE) transactions)"

definition stats ::
  "TimeZone \<Rightarrow> (string \<Rightarrow> string) \<Rightarrow> int \<Rightarrow> Transaction list \<Rightarrow> FinancialSummary" where
  "stats tz weekday now transactions =
     (let totalIncome = sumAmounts (filter (\<lambda>t. t_type t = INCOME) transactions);
          totalExpense = sumAmounts (filter (\<lambda>t. t_type t = EXPENSE) transactions);
          weeklySpending =
            map (\<lambda>date. (weekday date, dayAmount transactions date)) (last7Days tz now)
      in \<lparr> totalBalance = totalIncome - totalExpense,
           totalIncome = totalIncome,
           totalExpense = totalExpense,
           weeklySpending = weeklySpending \<rparr>)"

section \<open>Strings and plain objects of the platform\<close>

text \<open>
  \<^verbatim>\<open>String.prototype.trim\<close> removes white space and line terminators at both
  ends. Among the code units below 256 these are tab, line feed, vertical tab,
  form feed, carriage return, space and the no-break space.
\<close>

definition isWhiteSpace :: "char \<Rightarrow> bool" where
  "isWhiteSpace c =
     (c = CHR 0x09 \<or> c = CHR 0x0A \<or> c = CHR 0x0B \<or> c = CHR 0x0C \<or> c = CHR 0x0D
      \<or> c = CHR 0x20 \<or> c = CHR 0xA0)"

definition trim :: "string \<Rightarrow> string" where
  "trim s = rev (dropWhile isWhiteSpace (rev (dropWhile isWhiteSpace s)))"

text \<open>
  The grouping of the report reduces into the object literal \<^verbatim>\<open>{}\<close>, an
  ordinary object whose prototype is \<^verbatim>\<open>Object.prototype\<close>. Its own properties
  are kept in creation order. A value stored in it is the result of a \<^verbatim>\<open>+\<close>: a
  number, or a text when one operand of the \<^verbatim>\<open>+\<close> was not a number (the
  content of such a text is not tracked; it is never empty and never numeric).
\<close>

datatype jsvalue = Num rat | Text

type_synonym jsobject = "(string \<times> jsvalue) list"

text \<open>The property names an object inherits from \<^verbatim>\<open>Object.prototype\<close>.\<close>

definition objectPrototypeKeys :: "string list" where
  "objectPrototypeKeys =
     [''constructor'', ''__defineGetter__'', ''__defineSetter__'', ''hasOwnProperty'',
      ''__lookupGetter__'', ''__lookupSetter__'', ''isPrototypeOf'',
      ''propertyIsEnumerable'', ''toString'', ''valueOf'', ''__proto__'',
      ''toLocaleString'']"

text \<open>
  Reading \<^verbatim>\<open>acc[key]\<close>: an own property wins; otherwise the prototype chain
  answers with a function (for \<^verbatim>\<open>__proto__\<close> with the prototype object itself),
  or with \<^verbatim>\<open>undefined\<close> when the name is not inherited either.
\<close>

datatype lookup = Undefined | Own jsvalue | Inherited

definition getProperty :: "jsobject \<Rightarrow> string \<Rightarrow> lookup" where
  "getProperty obj key =
     (case map_of obj key of
        Some v \<Rightarrow> Own v
      | None \<Rightarrow> if key \<in> set objectPrototypeKeys then Inherited else Undefined)"

text \<open>
  \<^verbatim>\<open>(acc[key] || 0) + t.amount\<close>. \<^verbatim>\<open>undefined\<close> is falsy and is replaced by 0; a
  number stays what it is (0 is replaced by 0); a text and an inherited function
  or object are truthy, and adding a number to them concatenates texts.
\<close>

fun orZeroPlus :: "lookup \<Rightarrow> rat \<Rightarrow> jsvalue" where
  "orZeroPlus Undefined x = Num (0 + x)"
| "orZeroPlus (Own (Num v)) x = Num (v + x)"
| "orZeroPlus (Own Text) x = Text"
| "orZeroPlus Inherited x = Text"

fun setOwn :: "jsobject \<Rightarrow> string \<Rightarrow> jsvalue \<Rightarrow> jsobject" where
  "setOwn [] key v = [(key, v)]"
| "setOwn ((k, w) # obj) key v =
     (if k = key then (k, v) # obj else (k, w) # setOwn obj key v)"

text \<open>
  Writing \<^verbatim>\<open>acc[key] = v\<close>: for \<^verbatim>\<open>__proto__\<close> the assignment runs the setter
  of \<^verbatim>\<open>Object.prototype\<close>, which ignores a value that is neither an object nor
  \<^verbatim>\<open>null\<close>, so that nothing is stored; every other inherited name is a writable
  data property, and the assignment creates or updates an own property.
\<close>

definition setProperty :: "jsobject \<Rightarrow> string \<Rightarrow> jsvalue \<Rightarrow> jsobject" where
  "setProperty obj key v = (if key = ''__proto__'' then obj else setOwn obj key v)"

text \<open>
  \<^verbatim>\<open>Object.entries\<close> lists the own properties: first those whose name is an
  array index (the decimal numeral, without leading zeros, of a number up to
  \<open>2^32 - 2\<close>) in ascending numeric order, then the other names in creation order.
\<close>

definition isDigit :: "char \<Rightarrow> bool" where
  "isDigit c = (c \<in> set ''0123456789'')"

definition digitValue :: "char \<Rightarrow> nat" where
  "digitValue c = of_char c - 48"

definition digitsValue :: "string \<Rightarrow> nat" where
  "digitsValue s = foldl (\<lambda>n c. 10 * n + digitValue c) 0 s"

definition isArrayIndex :: "string \<Rightarrow> bool" where
  "isArrayIndex s =
     (s \<noteq> [] \<and> list_all isDigit s \<and> (s = ''0'' \<or> hd s \<noteq> CHR ''0'')
      \<and> digitsValue s < 2 ^ 32 - 1)"

definition entries :: "jsobject \<Rightarrow> (string \<times> jsvalue) list" where
  "entries obj =
     sort_key (\<lambda>e. digitsValue (fst e)) (filter (\<lambda>e. isArrayIndex (fst e)) obj)
     @ filter (\<lambda>e. \<not> isArrayIndex (fst e)) obj"

text \<open>
  \<^verbatim>\<open>Array.prototype.sort\<close> with a comparison function is stable. It is modelled
  as the insertion sort that places an element before the first one it does not
  compare greater than; for a consistent comparison function this is the one
  stable sorted order. A comparison result that is not a number counts as 0.
\<close>

fun insertBy :: "('a \<Rightarrow> 'a \<Rightarrow> rat) \<Rightarrow> 'a \<Rightarrow> 'a list \<Rightarrow> 'a list" where
  "insertBy cmp x [] = [x]"
| "insertBy cmp x (y # ys) = (if cmp x y \<le> 0 then x # y # ys else y # insertBy cmp x ys)"

definition sortBy :: "('a \<Rightarrow> 'a \<Rightarrow> rat) \<Rightarrow> 'a list \<Rightarrow> 'a list" where
  "sortBy cmp xs = foldr (insertBy cmp) xs []"

section \<open>Report data (UserProfileModal.tsx, reportData)\<close>

record Slice =
  s_name :: string
  s_value :: rat
  s_color :: string

record Item =
  i_name :: string
  i_value :: jsvalue

record ReportData =
  rd_data :: "Slice list"
  rd_totalExpense :: rat
  rd_totalIncome :: rat
  rd_topExpenses :: "Item list"

definition byItemStep :: "jsobject \<Rightarrow> Transaction \<Rightarrow> jsobject" where
  "byItemStep acc t =
     (let key = trim (t_description t)
      in setProperty acc key (orZeroPlus (getProperty acc key) (t_amount t)))"

definition byItem :: "Transaction list \<Rightarrow> jsobject" where
  "byItem expenses = foldl byItemStep [] expenses"

text \<open>\<^verbatim>\<open>b.value - a.value\<close>: a number when both values are numbers.\<close>

definition byValueDesc :: "Item \<Rightarrow> Item \<Rightarrow> rat" where
  "byValueDesc a b =
     (case (i_value b, i_value a) of (Num y, Num x) \<Rightarrow> y - x | _ \<Rightarrow> 0)"

text \<open>\<^verbatim>\<open>s + i.value\<close> in the sum of the remainder.\<close>

fun plusValue :: "jsvalue \<Rightarrow> jsvalue \<Rightarrow> jsvalue" where
  "plusValue (Num a) (Num b) = Num (a + b)"
| "plusValue _ _ = Text"

definition topExpenses :: "Transaction list \<Rightarrow> Item list" where
  "topExpenses transactions =
     (let expenses = filter (\<lambda>t. t_type t = EXPENSE) transactions;
          sorted = sortBy byValueDesc
                     (map (\<lambda>(name, v). \<lparr> i_name = name, i_value = v \<rparr>)
                        (entries (byItem expenses)))
      in if length sorted > 5
         then let top = take 5 sorted;
                  otherVal = foldl (\<lambda>s i. plusValue s (i_value i)) (Num 0) (drop 5 sorted)
              in top @ [\<lparr> i_name = ''Others'', i_value = otherVal \<rparr>]
         else sorted)"

definition reportData :: "Transaction list \<Rightarrow> ReportData" where
  "reportData transactions =
     (let totalIncome = sumAmounts (filter (\<lambda>t. t_type t = INCOME) transactions);
          totalExpense = sumAmounts (filter (\<lambda>t. t_type t = EXPENSE) transactions);
          remaining = max 0 (totalIncome - totalExpense);
          spent = totalExpense;
          data = filter (\<lambda>item. s_value item > 0)
                   [\<lparr> s_name = ''Spent'', s_value = spent, s_color = ''#ef4444'' \<rparr>,
                    \<lparr> s_name = ''Remaining'', s_value = remaining, s_color = ''#10b981'' \<rparr>]
      in \<lparr> rd_data = data,
           rd_totalExpense = totalExpense,
           rd_totalIncome = totalIncome,
           rd_topExpenses = topExpenses transactions \<rparr>)"

section \<open>The store in offline mode (services/store.ts)\<close>

text \<open>
  \<^verbatim>\<open>isFirebaseConfigured\<close> compares the configured API key with the placeholder;
  the repository ships the placeholder, so the store runs in offline mode, and the
  functions below are the offline branches.
\<close>

definition apiKey :: string where
  "apiKey = ''YOUR_API_KEY_HERE''"

definition isFirebaseConfigured :: bool where
  "isFirebaseConfigured = (apiKey \<noteq> ''YOUR_API_KEY_HERE'')"

datatype ReportFrequency = Weekly | Monthly

record UserProfile =
  uid :: "string option"
  displayId :: string
  name :: string
  avatar :: "string option"
  password :: string
  age :: int
  guardianEmail :: "string option"
  guardianPhone :: "string option"
  reportFrequency :: "ReportFrequency option"
  currency :: "string option"

text \<open>
  The browser's local storage holds two keys. Each is absent or holds the JSON
  text of a value; the text is modelled by the value it was serialised from and
  parses back to (a profile, a list of transactions).
\<close>

record LocalStorage =
  pocketbook_user :: "UserProfile option"
  pocketbook_data :: "Transaction list option"

text \<open>\<^verbatim>\<open>saved ? JSON.parse(saved) : []\<close>\<close>

definition savedTransactions :: "LocalStorage \<Rightarrow> Transaction list" where
  "savedTransactions st = (case pocketbook_data st of None \<Rightarrow> [] | Some txs \<Rightarrow> txs)"

datatype error = Error string

definition loginUser :: "LocalStorage \<Rightarrow> string \<Rightarrow> string \<Rightarrow> error + UserProfile" where
  "loginUser st emailOrName pw =
     (case pocketbook_user st of
        Some user \<Rightarrow>
          if name user = emailOrName \<or> guardianEmail user = Some emailOrName
          then Inr user
          else Inl (Error ''Offline user not found or password mismatch.'')
      | None \<Rightarrow> Inl (Error ''Offline user not found or password mismatch.''))"

definition registerUser :: "UserProfile \<Rightarrow> LocalStorage \<Rightarrow> UserProfile \<times> LocalStorage" where
  "registerUser profile st = (profile, st\<lparr> pocketbook_user := Some profile \<rparr>)"

definition logoutUser :: "LocalStorage \<Rightarrow> LocalStorage" where
  "logoutUser st = st\<lparr> pocketbook_user := None \<rparr>"

text \<open>
  \<^verbatim>\<open>Partial<Transaction>\<close>: each field is present or not. \<^verbatim>\<open>{ ...t, ...data }\<close>
  takes a field from \<open>data\<close> when it is present there and from \<open>t\<close> otherwise.
\<close>

record PartialTransaction =
  p_id :: "string option"
  p_date :: "string option"
  p_description :: "string option"
  p_amount :: "rat option"
  p_type :: "TransactionType option"

definition spread :: "Transaction \<Rightarrow> PartialTransaction \<Rightarrow> Transaction" where
  "spread t d =
     \<lparr> t_id = (case p_id d of Some v \<Rightarrow> v | None \<Rightarrow> t_id t),
       t_date = (case p_date d of Some v \<Rightarrow> v | None \<Rightarrow> t_date t),
       t_description = (case p_description d of Some v \<Rightarrow> v | None \<Rightarrow> t_description t),
       t_amount = (case p_amount d of Some v \<Rightarrow> v | None \<Rightarrow> t_amount t),
       t_type = (case p_type d of Some v \<Rightarrow> v | None \<Rightarrow> t_type t) \<rparr>"

text \<open>
  \<^verbatim>\<open>Omit<Transaction, 'id'>\<close>, the data of a new transaction. \<open>addTransaction\<close> takes
  the fresh identifier \<^verbatim>\<open>uuidv4()\<close> as an argument; the new item
  \<^verbatim>\<open>{ id: uuidv4(), ...data }\<close> goes to the front of the stored list.
\<close>

record NewTransaction =
  n_date :: string
  n_description :: string
  n_amount :: rat
  n_type :: TransactionType

definition addTransaction ::
  "string \<Rightarrow> NewTransaction \<Rightarrow> LocalStorage \<Rightarrow> Transaction \<times> LocalStorage" where
  "addTransaction uuid d st =
     (let current = savedTransactions st;
          newItem = \<lparr> t_id = uuid, t_date = n_date d, t_description = n_description d,
                      t_amount = n_amount d, t_type = n_type d \<rparr>
      in (newItem, st\<lparr> pocketbook_data := Some (newItem # current) \<rparr>))"

definition updateTransaction :: "string \<Rightarrow> PartialTransaction \<Rightarrow> LocalStorage \<Rightarrow> LocalStorage" where
  "updateTransaction i d st =
     (let current = savedTransactions st;
          current' = map (\<lambda>t. if t_id t = i then spread t d else t) current
      in st\<lparr> pocketbook_data := Some current' \<rparr>)"

definition deleteTransaction :: "string \<Rightarrow> LocalStorage \<Rightarrow> LocalStorage" where
  "deleteTransaction i st =
     (let current = savedTransactions st;
          filtered = filter (\<lambda>t. t_id t \<noteq> i) current
      in st\<lparr> pocketbook_data := Some filtered \<rparr>)"

section \<open>Reading numbers from text\<close>

definition startsWith :: "string \<Rightarrow> string \<Rightarrow> bool" where
  "startsWith s p = (take (length p) s = p)"

text \<open>
  \<^verbatim>\<open>parseInt(s)\<close> without a radix: leading white space is skipped, a sign is read,
  a prefix \<^verbatim>\<open>0x\<close> or \<^verbatim>\<open>0X\<close> selects radix 16, and the longest run of digits of
  the radix is the value; with no digit the result is \<^verbatim>\<open>NaN\<close>, here \<open>None\<close>. The
  value is the exact integer (the rounding of very long numerals is not
  modelled).
\<close>

definition isHexDigit :: "char \<Rightarrow> bool" where
  "isHexDigit c = (c \<in> set ''0123456789abcdefABCDEF'')"

definition hexDigitValue :: "char \<Rightarrow> nat" where
  "hexDigitValue c =
     (if isDigit c then of_char c - 48
      else if c \<in> set ''abcdef'' then of_char c - 87
      else of_char c - 55)"

definition parseInt :: "string \<Rightarrow> int option" where
  "parseInt s =
     (let s1 = dropWhile isWhiteSpace s;
          sign = (if startsWith s1 ''-'' then - 1 else 1);
          s2 = (if startsWith s1 ''-'' \<or> startsWith s1 ''+'' then tl s1 else s1);
          hex = (startsWith s2 ''0x'' \<or> startsWith s2 ''0X'');
          s3 = (if hex then drop 2 s2 else s2);
          z = (if hex then takeWhile isHexDigit s3 else takeWhile isDigit s3)
      in if z = [] then None
         else if hex then Some (sign * int (foldl (\<lambda>n c. 16 * n + hexDigitValue c) 0 z))
         else Some (sign * int (digitsValue z)))"

text \<open>
  \<^verbatim>\<open>parseFloat(s)\<close>: leading white space is skipped and the longest prefix that is a
  decimal literal is read: an optional sign, then \<^verbatim>\<open>Infinity\<close>, or digits with an
  optional fraction, or a fraction alone, then an optional exponent. The result
  is \<open>Some\<close> of the exact value of the literal, and \<open>None\<close> when the result is not a
  finite number (\<^verbatim>\<open>NaN\<close> when there is no literal, or an infinity). Rounding to
  double precision is not modelled.
\<close>

definition exponentOf :: "string \<Rightarrow> int" where
  "exponentOf r =
     (if startsWith r ''e'' \<or> startsWith r ''E''
      then let r1 = tl r;
               negative = startsWith r1 ''-'';
               r2 = (if startsWith r1 ''-'' \<or> startsWith r1 ''+'' then tl r1 else r1);
               ds = takeWhile isDigit r2
           in if ds = [] then 0
              else if negative then - int (digitsValue ds) else int (digitsValue ds)
      else 0)"

definition scale10 :: "rat \<Rightarrow> int \<Rightarrow> rat" where
  "scale10 x e = (if 0 \<le> e then x * 10 ^ nat e else x / 10 ^ nat (- e))"

definition parseFloat :: "string \<Rightarrow> rat option" where
  "parseFloat s =
     (let s1 = dropWhile isWhiteSpace s;
          negative = startsWith s1 ''-'';
          s2 = (if startsWith s1 ''-'' \<or> startsWith s1 ''+'' then tl s1 else s1)
      in if startsWith s2 ''Infinity'' then None
         else
           let ip = takeWhile isDigit s2;
               r1 = dropWhile isDigit s2;
               fp = (if startsWith r1 ''.'' then takeWhile isDigit (tl r1) else []);
               r2 = (if startsWith r1 ''.'' then dropWhile isDigit (tl r1) else r1);
               magnitude =
                 scale10 (of_nat (digitsValue (ip @ fp)) / 10 ^ length fp) (exponentOf r2)
           in if ip = [] \<and> fp = [] then None
              else Some (if negative then - magnitude else magnitude))"

section \<open>Creating transactions\<close>

subsection \<open>The entry form (AddTransactionModal.tsx, handleManualSubmit)\<close>

text \<open>
  The state of the form: the texts of the description, amount and date inputs and
  the selected kind. \<open>handleManualSubmit\<close> returns the object it hands to
  \<^verbatim>\<open>onSave\<close>, or \<open>None\<close> when it returns early. The amount of that object is
  \<^verbatim>\<open>parseFloat(amount)\<close>.
\<close>

record EntryForm =
  fm_description :: string
  fm_amount :: string
  fm_type :: TransactionType
  fm_date :: string

record EntryData =
  e_description :: string
  e_amount :: "rat option"
  e_type :: TransactionType
  e_date :: string

definition handleManualSubmit :: "EntryForm \<Rightarrow> EntryData option" where
  "handleManualSubmit f =
     (if fm_description f = [] \<or> fm_amount f = [] then None
      else Some \<lparr> e_description = fm_description f,
                  e_amount = parseFloat (fm_amount f),
                  e_type = fm_type f,
                  e_date = fm_date f \<rparr>)"

subsection \<open>Saving (App.tsx, handleSaveTransaction)\<close>

text \<open>
  With no transaction being edited the data is added under a fresh identifier
  (\<^verbatim>\<open>{ id: uuidv4(), ...data }\<close> at the front of the stored list); otherwise the
  edited transaction is updated with the four fields of the data. Stored amounts
  are finite numbers (JSON has no text for the others): an amount that is not
  finite is outside the model, and the result is \<open>None\<close>.
\<close>

definition handleSaveTransaction ::
  "Transaction option \<Rightarrow> string \<Rightarrow> EntryData \<Rightarrow> LocalStorage \<Rightarrow> LocalStorage option" where
  "handleSaveTransaction editingTransaction uuid d st =
     (case e_amount d of
        None \<Rightarrow> None
      | Some a \<Rightarrow>
          (case editingTransaction of
             Some e \<Rightarrow>
               Some (updateTransaction (t_id e)
                       \<lparr> p_id = None, p_date = Some (e_date d),
                         p_description = Some (e_description d), p_amount = Some a,
                         p_type = Some (e_type d) \<rparr> st)
           | None \<Rightarrow>
               Some (snd (addTransaction uuid
                       \<lparr> n_date = e_date d, n_description = e_description d,
                         n_amount = a, n_type = e_type d \<rparr> st))))"

subsection \<open>Text parsed by the AI service (services/geminiService.ts)\<close>

text \<open>
  The service is asked for a JSON object with the fields of the response schema:
  \<^verbatim>\<open>description\<close> (a string), \<^verbatim>\<open>amount\<close> (a number), \<^verbatim>\<open>type\<close> (a string) and
  \<^verbatim>\<open>date\<close> (a string or null). A field is \<open>None\<close> when it is missing (or null, for
  the date). \<open>parseTransactionFromText\<close> takes the parsed response, \<open>None\<close> when
  the request or \<^verbatim>\<open>JSON.parse\<close> threw, and returns what the source returns, \<open>None\<close>
  for \<^verbatim>\<open>null\<close>. \<^verbatim>\<open>Number(json.amount)\<close> of a number is that number.
\<close>

record AiJson =
  j_description :: "string option"
  j_amount :: "rat option"
  j_type :: "string option"
  j_date :: "string option"

record ParsedTransaction =
  pt_description :: string
  pt_amount :: rat
  pt_type :: TransactionType
  pt_date :: "string option"

definition parseTransactionFromText :: "AiJson option \<Rightarrow> ParsedTransaction option" where
  "parseTransactionFromText response =
     (case response of
        None \<Rightarrow> None
      | Some json \<Rightarrow>
          (case (j_description json, j_amount json) of
             (Some description, Some amount) \<Rightarrow>
               if description = [] then None
               else Some \<lparr> pt_description = description,
                           pt_amount = amount,
                           pt_type = (if j_type json = Some ''income'' then INCOME else EXPENSE),
                           pt_date = (case j_date json of
                                        Some date \<Rightarrow> if date = [] then None else Some date
                                      | None \<Rightarrow> None) \<rparr>
           | _ \<Rightarrow> None))"

section \<open>Registration and login form (AuthScreen.tsx, handleSubmit)\<close>

text \<open>
  The regular expression \<^verbatim>\<open>/^[^\s@]+@[^\s@]+\.[^\s@]+$/\<close>. A character of the class
  \<^verbatim>\<open>[^\s@]\<close> is neither white space nor \<^verbatim>\<open>@\<close>. A text matches when it is a
  non-empty run of the class, then \<^verbatim>\<open>@\<close>, then a run of the class that has a dot
  with at least one character before it and one after it.
\<close>

definition plainChar :: "char \<Rightarrow> bool" where
  "plainChar c = (\<not> isWhiteSpace c \<and> c \<noteq> CHR ''@'')"

definition emailRegexTest :: "string \<Rightarrow> bool" where
  "emailRegexTest s =
     (let a = takeWhile plainChar s;
          r = dropWhile plainChar s
      in a \<noteq> [] \<and> startsWith r ''@'' \<and> list_all plainChar (tl r)
         \<and> CHR ''.'' \<in> set (butlast (tl (tl r))))"

record AuthForm =
  isLoginMode :: bool
  in_name :: string
  in_email :: string
  in_password :: string
  in_ageInput :: string
  in_guardianEmail :: string
  in_guardianPhone :: string
  in_reportFrequency :: ReportFrequency

text \<open>
  What a submission does: it shows validation errors (the object given to
  \<^verbatim>\<open>setErrors\<close>, as the list of its keys and messages in the order of assignment)
  and stops, or it calls \<open>loginUser\<close> with an identifier and a password, or it calls
  \<open>registerUser\<close> with a new profile.
\<close>

datatype submission =
  SetErrors "(string \<times> string) list"
  | CallLoginUser string string
  | CallRegisterUser UserProfile

text \<open>
  The error messages of the registration branch, each assigned when its
  condition holds.
\<close>

definition registerErrors :: "AuthForm \<Rightarrow> (string \<times> string) list" where
  "registerErrors f =
     (let ageNum = parseInt (in_ageInput f);
          isUnderage = (case ageNum of Some n \<Rightarrow> n \<le> 17 | None \<Rightarrow> False);
          hasEmail = (length (trim (in_guardianEmail f)) > 0);
          hasPhone = (length (trim (in_guardianPhone f)) > 0)
      in (if trim (in_name f) = [] then [(''name'', ''Name is required'')] else [])
         @ (if in_password f = [] then [(''password'', ''Password is required'')]
            else if length (in_password f) < 6
            then [(''password'', ''Password must be at least 6 characters long'')]
            else [])
         @ (if in_ageInput f = [] then [(''age'', ''Age is required'')]
            else if (case ageNum of Some n \<Rightarrow> n < 5 \<or> n > 100 | None \<Rightarrow> True)
            then [(''age'', ''Please enter a valid age'')]
            else [])
         @ (if isUnderage \<and> \<not> hasEmail \<and> \<not> hasPhone
            then [(''guardianSection'', ''Please provide either an email or phone number.'')]
            else [])
         @ (if isUnderage \<and> hasEmail \<and> \<not> emailRegexTest (in_guardianEmail f)
            then [(''guardianEmail'', ''Please enter a valid email.'')]
            else []))"

text \<open>
  \<open>handleSubmit\<close> takes the random eight-digit \<open>displayId\<close> as an argument. A
  profile is built only when there is no error, so that the age is a number
  there.
\<close>

definition handleSubmit :: "string \<Rightarrow> AuthForm \<Rightarrow> submission" where
  "handleSubmit newDisplayId f =
     (if isLoginMode f then
        (if in_password f = [] then SetErrors [(''password'', ''Required'')]
         else if isFirebaseConfigured \<and> in_email f = []
         then SetErrors [(''email'', ''Email required for online login'')]
         else if \<not> isFirebaseConfigured \<and> in_name f = []
         then SetErrors [(''name'', ''Name required'')]
         else CallLoginUser (if isFirebaseConfigured then in_email f else in_name f)
                (in_password f))
      else
        (let newErrors = registerErrors f
         in if length newErrors > 0 then SetErrors newErrors
            else
              (case parseInt (in_ageInput f) of
                 None \<Rightarrow> SetErrors newErrors
               | Some ageNum \<Rightarrow>
                   let isUnderage = (ageNum \<le> 17)
                   in CallRegisterUser
                        \<lparr> uid = None,
                          displayId = newDisplayId,
                          name = in_name f,
                          avatar = None,
                          password = in_password f,
                          age = ageNum,
                          guardianEmail =
                            (if isUnderage \<and> in_guardianEmail f \<noteq> []
                             then Some (in_guardianEmail f) else None),
                          guardianPhone =
                            (if isUnderage \<and> in_guardianPhone f \<noteq> []
                             then Some (in_guardianPhone f) else None),
                          reportFrequency =
                            (if isUnderage then Some (in_reportFrequency f) else None),
                          currency = None \<rparr>)))"

section \<open>Derived notions and sample data\<close>

text \<open>
  Sample data for running the statements: a platform on UTC, the time
  2024-01-10T12:00Z, weekday names for the week that ends that day, and three
  transactions.
\<close>

definition utcZone :: TimeZone where
  "utcZone = \<lparr> offsetAtUtc = (\<lambda>t. 0), offsetAtLocal = (\<lambda>t. 0) \<rparr>"

definition sampleNow :: int where
  "sampleNow = 1704888000000"

definition sampleWeekday :: "string \<Rightarrow> string" where
  "sampleWeekday s =
     (if s = ''2024-01-10'' then ''Wed'' else if s = ''2024-01-09'' then ''Tue''
      else if s = ''2024-01-08'' then ''Mon'' else if s = ''2024-01-07'' then ''Sun''
      else if s = ''2024-01-06'' then ''Sat'' else if s = ''2024-01-05'' then ''Fri''
      else ''Thu'')"

definition sampleTransactions :: "Transaction list" where
  "sampleTransactions =
     [\<lparr> t_id = ''a'', t_date = ''2024-01-10'', t_description = ''Lunch'', t_amount = 50,
        t_type = EXPENSE \<rparr>,
      \<lparr> t_id = ''b'', t_date = ''2024-01-09'', t_description = ''Lunch'', t_amount = 30,
        t_type = EXPENSE \<rparr>,
      \<lparr> t_id = ''c'', t_date = ''2024-01-09'', t_description = ''Allowance'', t_amount = 200,
        t_type = INCOME \<rparr>]"

text \<open>
  London around the end of summer time in 2024: the offset is one hour until
  2024-10-27T01:00Z (time value 1729990800000) and zero from then on, and a local
  time before 02:00 of that day is read with the offset of one hour. The time
  2024-10-30T00:30Z, and a collection with one expense of 40 dated 27 October.
\<close>

definition londonAutumn2024 :: TimeZone where
  "londonAutumn2024 =
     \<lparr> offsetAtUtc = (\<lambda>t. if t < 1729990800000 then 3600000 else 0),
       offsetAtLocal = (\<lambda>t. if t < 1729994400000 then 3600000 else 0) \<rparr>"

definition londonNow :: int where
  "londonNow = 1730248200000"

definition sundayExpense :: "Transaction list" where
  "sundayExpense =
     [\<lparr> t_id = ''s'', t_date = ''2024-10-27'', t_description = ''Cinema'', t_amount = 40,
        t_type = EXPENSE \<rparr>]"

text \<open>
  The two slices of the pie before any is omitted, for a given total income and
  total expense.
\<close>

definition bothSlices :: "rat \<Rightarrow> rat \<Rightarrow> Slice list" where
  "bothSlices income expense =
     [\<lparr> s_name = ''Spent'', s_value = expense, s_color = ''#ef4444'' \<rparr>,
      \<lparr> s_name = ''Remaining'', s_value = max 0 (income - expense), s_color = ''#10b981'' \<rparr>]"

text \<open>A collection with a single expense of amount -5.\<close>

definition negativeExpense :: "Transaction list" where
  "negativeExpense =
     [\<lparr> t_id = ''a'', t_date = ''2024-01-10'', t_description = ''Refund'', t_amount = - 5,
        t_type = EXPENSE \<rparr>]"

text \<open>
  The sum of the values of a list of items, added up as the source adds up the
  remainder; the number a value stands for; whether a value is a number.
\<close>

definition numOf :: "jsvalue \<Rightarrow> rat" where
  "numOf v = (case v of Num r \<Rightarrow> r | Text \<Rightarrow> 0)"

definition isNum :: "jsvalue \<Rightarrow> bool" where
  "isNum v = (case v of Num r \<Rightarrow> True | Text \<Rightarrow> False)"

definition valuesSum :: "Item list \<Rightarrow> jsvalue" where
  "valuesSum items = foldl (\<lambda>s i. plusValue s (i_value i)) (Num 0) items"

text \<open>
  A registration with the age text \<^verbatim>\<open>50e-1\<close>, the number 5 in exponent notation,
  and no guardian contact.
\<close>

definition exponentAgeForm :: AuthForm where
  "exponentAgeForm =
     \<lparr> isLoginMode = False, in_name = ''Mei'', in_email = [], in_password = ''secret1'',
       in_ageInput = ''50e-1'', in_guardianEmail = [], in_guardianPhone = [],
       in_reportFrequency = Weekly \<rparr>"

text \<open>A collection with a single expense of 50 described as \<^verbatim>\<open>__proto__\<close>.\<close>

definition protoExpense :: "Transaction list" where
  "protoExpense =
     [\<lparr> t_id = ''a'', t_date = ''2024-01-10'', t_description = ''__proto__'', t_amount = 50,
        t_type = EXPENSE \<rparr>]"

definition sampleProfile :: UserProfile where
  "sampleProfile =
     \<lparr> uid = None, displayId = ''12345678'', name = ''Mei'', avatar = None,
       password = ''secret1'', age = 16, guardianEmail = Some ''parent@example.com'',
       guardianPhone = None, reportFrequency = Some Weekly, currency = None \<rparr>"

definition sampleStorage :: LocalStorage where
  "sampleStorage =
     \<lparr> pocketbook_user = Some sampleProfile, pocketbook_data = Some sampleTransactions \<rparr>"

text \<open>
  Submitting the entry form while no transaction is being edited: the form's
  \<^verbatim>\<open>onSave\<close> is \<open>handleSaveTransaction\<close>.
\<close>

definition manualEntry :: "string \<Rightarrow> EntryForm \<Rightarrow> LocalStorage \<Rightarrow> LocalStorage option" where
  "manualEntry uuid f st =
     (case handleManualSubmit f of
        None \<Rightarrow> None
      | Some d \<Rightarrow> handleSaveTransaction None uuid d st)"

definition emptyStorage :: LocalStorage where
  "emptyStorage = \<lparr> pocketbook_user = None, pocketbook_data = None \<rparr>"

definition lunchForm :: EntryForm where
  "lunchForm =
     \<lparr> fm_description = ''Lunch'', fm_amount = ''12.50'', fm_type = EXPENSE,
       fm_date = ''2024-01-10'' \<rparr>"

definition refundForm :: EntryForm where
  "refundForm =
     \<lparr> fm_description = ''Refund'', fm_amount = ''-5'', fm_type = EXPENSE,
       fm_date = ''2024-01-10'' \<rparr>"

definition refundJson :: AiJson where
  "refundJson =
     \<lparr> j_description = Some ''Refund'', j_amount = Some (- 5), j_type = Some ''expense'',
       j_date = None \<rparr>"

definition underageForm :: AuthForm where
  "underageForm =
     \<lparr> isLoginMode = False, in_name = ''Mei'', in_email = [], in_password = ''secret1'',
       in_ageInput = ''16'', in_guardianEmail = ''parent@example.com'',
       in_guardianPhone = [], in_reportFrequency = Weekly \<rparr>"

definition adultForm :: AuthForm where
  "adultForm =
     \<lparr> isLoginMode = False, in_name = ''Ann'', in_email = [], in_password = ''secret2'',
       in_ageInput = ''30'', in_guardianEmail = ''parent@example.com'',
       in_guardianPhone = ''555-0100'', in_reportFrequency = Monthly \<rparr>"

definition noGuardianForm :: AuthForm where
  "noGuardianForm =
     \<lparr> isLoginMode = False, in_name = ''Mei'', in_email = [], in_password = ''secret1'',
       in_ageInput = ''16'', in_guardianEmail = [], in_guardianPhone = ''  '',
       in_reportFrequency = Weekly \<rparr>"

section \<open>Properties of the statistics\<close>

lemma foldl_amounts_shift:
  "foldl (\<lambda>acc t. acc + t_amount t) a ts = a + sum_list (map t_amount ts)"
  by (induction ts arbitrary: a) (simp_all add: add.assoc)

lemma sumAmounts_sum_list: "sumAmounts ts = sum_list (map t_amount ts)"
  by (simp add: sumAmounts_def foldl_amounts_shift)

text \<open>
  C1. The summary's balance is its income minus its expense, the income is the
  sum of the amounts of the transactions of kind INCOME and the expense the sum of
  the amounts of the transactions of kind EXPENSE.
\<close>

theorem stats_balance:
  "totalBalance (stats tz weekday now ts) =
     totalIncome (stats tz weekday now ts) - totalExpense (stats tz weekday now ts)
   \<and> totalIncome (stats tz weekday now ts) =
       sum_list (map t_amount (filter (\<lambda>t. t_type t = INCOME) ts))
   \<and> totalExpense (stats tz weekday now ts) =
       sum_list (map t_amount (filter (\<lambda>t. t_type t = EXPENSE) ts))"
proof -
  let ?s = "stats tz weekday now ts"
  have income: "totalIncome ?s = sumAmounts (filter (\<lambda>t. t_type t = INCOME) ts)"
    by (simp add: stats_def Let_def)
  have expense: "totalExpense ?s = sumAmounts (filter (\<lambda>t. t_type t = EXPENSE) ts)"
    by (simp add: stats_def Let_def)
  have balance: "totalBalance ?s = totalIncome ?s - totalExpense ?s"
    by (simp add: stats_def Let_def)
  from income expense balance show ?thesis
    by (simp add: sumAmounts_sum_list)
qed

theorem stats_balance_witness:
  "totalBalance (stats utcZone sampleWeekday sampleNow sampleTransactions) = 120
   \<and> totalIncome (stats utcZone sampleWeekday sampleNow sampleTransactions) = 200
   \<and> totalExpense (stats utcZone sampleWeekday sampleNow sampleTransactions) = 80"
  using stats_balance [of utcZone sampleWeekday sampleNow sampleTransactions]
  by (simp add: sampleTransactions_def)

text \<open>
  The weekly view has seven buckets, one for each date text of \<open>last7Days\<close> in
  order; the amount of a bucket is the sum of the amounts of the transactions of
  kind EXPENSE whose stored date is equal, as a string, to the bucket's date
  text, and it is zero when no transaction matches.
\<close>

lemma weeklySpending_sums:
  "length (weeklySpending (stats tz weekday now ts)) = 7
   \<and> map fst (weeklySpending (stats tz weekday now ts)) = map weekday (last7Days tz now)
   \<and> map snd (weeklySpending (stats tz weekday now ts)) =
       map (\<lambda>date. sum_list (map t_amount
                  (filter (\<lambda>t. t_type t = EXPENSE \<and> t_date t = date) ts)))
         (last7Days tz now)
   \<and> (\<forall>k < 7. \<not> (\<exists>t \<in> set ts. t_type t = EXPENSE \<and> t_date t = last7Days tz now ! k)
         \<longrightarrow> snd (weeklySpending (stats tz weekday now ts) ! k) = 0)"
proof -
  let ?w = "weeklySpending (stats tz weekday now ts)"
  have w: "?w = map (\<lambda>date. (weekday date, dayAmount ts date)) (last7Days tz now)"
    by (simp add: stats_def Let_def)
  have seven: "length (last7Days tz now) = 7"
    by (simp add: last7Days_def)
  have len: "length ?w = 7"
    by (simp add: w seven)
  have conj_comm: "\<And>t date. (t_date t = date \<and> t_type t = EXPENSE) =
      (t_type t = EXPENSE \<and> t_date t = date)"
    by blast
  have amt: "\<And>date. dayAmount ts date =
      sum_list (map t_amount (filter (\<lambda>t. t_type t = EXPENSE \<and> t_date t = date) ts))"
    by (simp add: dayAmount_def sumAmounts_sum_list conj_comm)
  have labels: "map fst ?w = map weekday (last7Days tz now)"
    by (simp add: w comp_def)
  have amounts: "map snd ?w =
      map (\<lambda>date. sum_list (map t_amount
                 (filter (\<lambda>t. t_type t = EXPENSE \<and> t_date t = date) ts)))
        (last7Days tz now)"
    by (simp add: w comp_def amt)
  have zero: "\<forall>k < 7. \<not> (\<exists>t \<in> set ts. t_type t = EXPENSE \<and> t_date t = last7Days tz now ! k)
         \<longrightarrow> snd (?w ! k) = 0"
  proof (intro allI impI)
    fix k :: nat
    assume k: "k < 7"
      and none: "\<not> (\<exists>t \<in> set ts. t_type t = EXPENSE \<and> t_date t = last7Days tz now ! k)"
    have "filter (\<lambda>t. t_type t = EXPENSE \<and> t_date t = last7Days tz now ! k) ts = []"
      using none by (auto simp: filter_empty_conv)
    then have "dayAmount ts (last7Days tz now ! k) = 0"
      by (simp add: amt)
    then show "snd (?w ! k) = 0"
      using k by (simp add: w seven)
  qed
  from len labels amounts zero show ?thesis
    by blast
qed

text \<open>
  Where the time zone has one offset at all times, the seven date texts are those
  of the seven UTC calendar days that end with the day of \<open>now\<close>.
\<close>

lemma last7Days_constant_offset:
  assumes "\<And>t. offsetAtUtc tz t = c" and "\<And>t. offsetAtLocal tz t = c"
  shows "last7Days tz now = map isoDay [now div msPerDay - 6 .. now div msPerDay]"
proof -
  have shift: "\<And>i. (now - int i * msPerDay) div msPerDay = now div msPerDay - int i"
  proof -
    fix i
    have "(now + (- int i) * msPerDay) div msPerDay = (- int i) + now div msPerDay"
      by (rule div_mult_self1) (simp add: msPerDay_def)
    then show "(now - int i * msPerDay) div msPerDay = now div msPerDay - int i"
      by simp
  qed
  have moved: "\<And>i. toISODate (setDateBack tz now i) = isoDay (now div msPerDay - int i)"
    by (simp add: toISODate_def setDateBack_def utcTime_def localTime_def assms shift)
  have a: "[0..<7] = [0, 1, 2, 3, 4, 5, 6::nat]"
    by (simp add: upt_rec)
  let ?n = "now div msPerDay"
  have b: "[?n - 6 .. ?n] = [?n - 6, ?n - 5, ?n - 4, ?n - 3, ?n - 2, ?n - 1, ?n]"
    by (simp add: upto_rec1 [of "?n - 6"] upto_rec1 [of "?n - 5"] upto_rec1 [of "?n - 4"]
        upto_rec1 [of "?n - 3"] upto_rec1 [of "?n - 2"] upto_rec1 [of "?n - 1"]
        upto_rec1 [of ?n])
  show ?thesis
    unfolding last7Days_def moved a b by simp
qed

text \<open>The sample week on a platform on UTC.\<close>

lemma isoDay_sample:
  "map isoDay [19726, 19727, 19728, 19729, 19730, 19731, 19732] =
     [''2024-01-04'', ''2024-01-05'', ''2024-01-06'', ''2024-01-07'', ''2024-01-08'',
      ''2024-01-09'', ''2024-01-10'']"
  by code_simp

lemma weeklySpending_sample:
  "weeklySpending (stats utcZone sampleWeekday sampleNow sampleTransactions) =
     [(''Thu'', 0), (''Fri'', 0), (''Sat'', 0), (''Sun'', 0), (''Mon'', 0), (''Tue'', 30),
      (''Wed'', 50)]"
proof -
  have day: "sampleNow div msPerDay = 19732"
    by (simp add: sampleNow_def msPerDay_def)
  have "last7Days utcZone sampleNow = map isoDay [19732 - 6 .. 19732]"
    using last7Days_constant_offset [of utcZone 0 sampleNow] by (simp add: utcZone_def day)
  also have "[19732 - 6 .. 19732] = [19726, 19727, 19728, 19729, 19730, 19731, 19732::int]"
    by (simp add: upto_rec1)
  finally have days: "last7Days utcZone sampleNow =
      [''2024-01-04'', ''2024-01-05'', ''2024-01-06'', ''2024-01-07'', ''2024-01-08'',
       ''2024-01-09'', ''2024-01-10'']"
    by (simp only: isoDay_sample)
  show ?thesis
    by (simp add: stats_def Let_def days dayAmount_def sumAmounts_def sampleWeekday_def
        sampleTransactions_def)
qed

text \<open>The seven time values and their date texts in London on 30 October 2024.\<close>

lemma setDateBack_london:
  "map (setDateBack londonAutumn2024 londonNow) [0, 1, 2, 3, 4, 5, 6] =
     [1730248200000, 1730161800000, 1730075400000, 1729985400000, 1729899000000,
      1729812600000, 1729726200000]"
  by (simp add: setDateBack_def utcTime_def localTime_def londonAutumn2024_def londonNow_def
      msPerDay_def)

lemma toISODate_london:
  "map toISODate
     [1730248200000, 1730161800000, 1730075400000, 1729985400000, 1729899000000,
      1729812600000, 1729726200000] =
     [''2024-10-30'', ''2024-10-29'', ''2024-10-28'', ''2024-10-26'', ''2024-10-25'',
      ''2024-10-24'', ''2024-10-23'']"
  by code_simp

lemma last7Days_london:
  "last7Days londonAutumn2024 londonNow =
     [''2024-10-23'', ''2024-10-24'', ''2024-10-25'', ''2024-10-26'', ''2024-10-28'',
      ''2024-10-29'', ''2024-10-30'']"
proof -
  have a: "[0..<7] = [0, 1, 2, 3, 4, 5, 6::nat]"
    by (simp add: upt_rec)
  have "map (\<lambda>i. toISODate (setDateBack londonAutumn2024 londonNow i)) [0, 1, 2, 3, 4, 5, 6] =
      map toISODate (map (setDateBack londonAutumn2024 londonNow) [0, 1, 2, 3, 4, 5, 6])"
    by simp
  also have "\<dots> = [''2024-10-30'', ''2024-10-29'', ''2024-10-28'', ''2024-10-26'',
      ''2024-10-25'', ''2024-10-24'', ''2024-10-23'']"
    by (simp only: setDateBack_london toISODate_london)
  finally show ?thesis
    by (simp add: last7Days_def a)
qed

text \<open>
  C2 across a change of the UTC offset. In London at 2024-10-30T00:30Z the local
  date is moved back over the end of summer time, and the UTC date texts of the
  seven buckets are those of 23, 24, 25, 26, 28, 29 and 30 October: 27 October,
  one of the seven days up to the current day, has no bucket, and 23 October has
  one. An expense of 40 dated 2024-10-27 is in the total expense and in no
  bucket.
\<close>

theorem weeklySpending_skips_day:
  "last7Days londonAutumn2024 londonNow =
     [''2024-10-23'', ''2024-10-24'', ''2024-10-25'', ''2024-10-26'', ''2024-10-28'',
      ''2024-10-29'', ''2024-10-30'']
   \<and> map snd (weeklySpending (stats londonAutumn2024 weekday londonNow sundayExpense)) =
       [0, 0, 0, 0, 0, 0, 0]
   \<and> totalExpense (stats londonAutumn2024 weekday londonNow sundayExpense) = 40"
  by (simp add: last7Days_london stats_def Let_def dayAmount_def sumAmounts_def
      sundayExpense_def)

section \<open>Properties of the report data\<close>

lemma reportData_totals:
  "rd_totalIncome (reportData ts) = sum_list (map t_amount (filter (\<lambda>t. t_type t = INCOME) ts))"
  "rd_totalExpense (reportData ts) = sum_list (map t_amount (filter (\<lambda>t. t_type t = EXPENSE) ts))"
  by (simp_all add: reportData_def Let_def sumAmounts_sum_list)

lemma reportData_data:
  "rd_data (reportData ts) =
     filter (\<lambda>item. 0 < s_value item)
       (bothSlices (rd_totalIncome (reportData ts)) (rd_totalExpense (reportData ts)))"
  by (simp add: reportData_def Let_def bothSlices_def)

text \<open>
  C4, as the code has it. The pie data is the Spent slice (the total expense)
  followed by the Remaining slice (the larger of 0 and total income minus total
  expense), without the slices whose value is not positive. It never holds a
  slice of value zero, it is empty when total income and total expense are both
  zero, and when the total expense is not negative the omitted slices are exactly
  the slices of value zero.
\<close>

theorem pie_slices:
  "rd_data (reportData ts) =
     filter (\<lambda>item. 0 < s_value item)
       (bothSlices (rd_totalIncome (reportData ts)) (rd_totalExpense (reportData ts)))
   \<and> (\<forall>item \<in> set (rd_data (reportData ts)). s_value item \<noteq> 0)
   \<and> (rd_totalIncome (reportData ts) = 0 \<and> rd_totalExpense (reportData ts) = 0
        \<longrightarrow> rd_data (reportData ts) = [])
   \<and> (0 \<le> rd_totalExpense (reportData ts)
        \<longrightarrow> rd_data (reportData ts) =
              filter (\<lambda>item. s_value item \<noteq> 0)
                (bothSlices (rd_totalIncome (reportData ts)) (rd_totalExpense (reportData ts))))"
proof -
  let ?inc = "rd_totalIncome (reportData ts)" and ?exp = "rd_totalExpense (reportData ts)"
  have nonzero: "\<forall>item \<in> set (rd_data (reportData ts)). s_value item \<noteq> 0"
    by (auto simp: reportData_data)
  have empty: "?inc = 0 \<and> ?exp = 0 \<longrightarrow> rd_data (reportData ts) = []"
    by (simp add: reportData_data bothSlices_def)
  have same: "0 \<le> ?exp \<longrightarrow> rd_data (reportData ts) =
      filter (\<lambda>item. s_value item \<noteq> 0) (bothSlices ?inc ?exp)"
  proof
    assume "0 \<le> ?exp"
    then have "\<forall>item \<in> set (bothSlices ?inc ?exp). (0 < s_value item) = (s_value item \<noteq> 0)"
      by (auto simp: bothSlices_def max_def)
    then have "filter (\<lambda>item. 0 < s_value item) (bothSlices ?inc ?exp) =
        filter (\<lambda>item. s_value item \<noteq> 0) (bothSlices ?inc ?exp)"
      by (intro filter_cong) auto
    then show "rd_data (reportData ts) =
        filter (\<lambda>item. s_value item \<noteq> 0) (bothSlices ?inc ?exp)"
      by (simp add: reportData_data)
  qed
  from reportData_data [of ts] nonzero empty same show ?thesis
    by blast
qed

theorem pie_slices_witness:
  "rd_data (reportData sampleTransactions) =
     [\<lparr> s_name = ''Spent'', s_value = 80, s_color = ''#ef4444'' \<rparr>,
      \<lparr> s_name = ''Remaining'', s_value = 120, s_color = ''#10b981'' \<rparr>]"
proof -
  have inc: "rd_totalIncome (reportData sampleTransactions) = 200"
    by (simp add: reportData_totals sampleTransactions_def)
  have spent: "rd_totalExpense (reportData sampleTransactions) = 80"
    by (simp add: reportData_totals sampleTransactions_def)
  show ?thesis
    using pie_slices [of sampleTransactions] by (simp add: inc spent bothSlices_def)
qed

text \<open>
  C4 as stated, with the slices of value zero omitted, fails for a single expense
  of amount -5 (the entry form accepts the text \<^verbatim>\<open>-5\<close>): the total expense is -5,
  and the Spent slice, whose value is not zero, is omitted.
\<close>

theorem pie_slices_counterexample:
  "rd_data (reportData negativeExpense) \<noteq>
     filter (\<lambda>item. s_value item \<noteq> 0)
       (bothSlices (rd_totalIncome (reportData negativeExpense))
          (rd_totalExpense (reportData negativeExpense)))"
proof -
  have inc: "rd_totalIncome (reportData negativeExpense) = 0"
    by (simp add: reportData_totals negativeExpense_def)
  have spent: "rd_totalExpense (reportData negativeExpense) = - 5"
    by (simp add: reportData_totals negativeExpense_def)
  show ?thesis
    by (simp add: reportData_data inc spent bothSlices_def)
qed

lemma foldl_plusValue_num:
  "list_all (\<lambda>i. isNum (i_value i)) xs \<Longrightarrow>
   foldl (\<lambda>s i. plusValue s (i_value i)) (Num a) xs = Num (a + sum_list (map (\<lambda>i. numOf (i_value i)) xs))"
proof (induction xs arbitrary: a)
  case Nil
  then show ?case by simp
next
  case (Cons x xs)
  from Cons.prems obtain r where r: "i_value x = Num r"
    by (cases "i_value x") (simp_all add: isNum_def)
  from Cons.prems have "list_all (\<lambda>i. isNum (i_value i)) xs"
    by simp
  from Cons.IH [OF this, of "a + r"] r show ?case
    by (simp add: numOf_def add.assoc)
qed

lemma setOwn_absent: "map_of obj key = None \<Longrightarrow> setOwn obj key w = obj @ [(key, w)]"
  by (induction obj) (auto split: if_splits)

lemma setOwn_present:
  "map_of obj key = Some (Num v) \<Longrightarrow> list_all (\<lambda>e. isNum (snd e)) obj \<Longrightarrow>
   list_all (\<lambda>e. isNum (snd e)) (setOwn obj key (Num w))
   \<and> sum_list (map (\<lambda>e. numOf (snd e)) (setOwn obj key (Num w)))
       = sum_list (map (\<lambda>e. numOf (snd e)) obj) - v + w"
  by (induction obj) (auto simp: isNum_def numOf_def split: if_splits)

lemma byItemStep_num:
  assumes "list_all (\<lambda>e. isNum (snd e)) acc"
    and "trim (t_description t) \<notin> set objectPrototypeKeys"
  shows "list_all (\<lambda>e. isNum (snd e)) (byItemStep acc t)
    \<and> sum_list (map (\<lambda>e. numOf (snd e)) (byItemStep acc t))
        = sum_list (map (\<lambda>e. numOf (snd e)) acc) + t_amount t"
proof -
  let ?key = "trim (t_description t)"
  have np: "?key \<noteq> ''__proto__''"
    using assms(2) by (auto simp: objectPrototypeKeys_def)
  show ?thesis
  proof (cases "map_of acc ?key")
    case None
    then show ?thesis
      using assms np
      by (simp add: byItemStep_def Let_def getProperty_def setProperty_def setOwn_absent
          isNum_def numOf_def)
  next
    case (Some v)
    then have "(?key, v) \<in> set acc"
      by (rule map_of_SomeD)
    with assms(1) have "isNum v"
      by (auto simp: list_all_iff)
    then obtain r where r: "v = Num r"
      by (cases v) (simp_all add: isNum_def)
    from setOwn_present [of acc ?key r "r + t_amount t"] Some r assms(1) np show ?thesis
      by (simp add: byItemStep_def Let_def getProperty_def setProperty_def)
  qed
qed

lemma byItem_fold_num:
  assumes "list_all (\<lambda>e. isNum (snd e)) acc"
    and "\<forall>t \<in> set ts. trim (t_description t) \<notin> set objectPrototypeKeys"
  shows "list_all (\<lambda>e. isNum (snd e)) (foldl byItemStep acc ts)
    \<and> sum_list (map (\<lambda>e. numOf (snd e)) (foldl byItemStep acc ts))
        = sum_list (map (\<lambda>e. numOf (snd e)) acc) + sum_list (map t_amount ts)"
  using assms
proof (induction ts arbitrary: acc)
  case Nil
  then show ?case by simp
next
  case (Cons t ts)
  from Cons.prems have t: "trim (t_description t) \<notin> set objectPrototypeKeys"
    and rest: "\<forall>t \<in> set ts. trim (t_description t) \<notin> set objectPrototypeKeys"
    by simp_all
  note step = byItemStep_num [OF Cons.prems(1) t]
  from Cons.IH [OF conjunct1 [OF step] rest] step show ?case
    by (simp add: add.assoc)
qed

lemma mset_entries: "mset (entries obj) = mset obj"
  by (simp add: entries_def)

lemma mset_insertBy: "mset (insertBy cmp x ys) = add_mset x (mset ys)"
  by (induction ys) simp_all

lemma mset_sortBy: "mset (sortBy cmp xs) = mset xs"
  by (induction xs) (simp_all add: sortBy_def mset_insertBy)

lemma length_topExpenses: "length (topExpenses ts) \<le> 6"
  by (simp add: topExpenses_def Let_def)

lemma sum_list_mset_cong:
  fixes f :: "'a \<Rightarrow> rat"
  shows "mset xs = mset ys \<Longrightarrow> sum_list (map f xs) = sum_list (map f ys)"
proof -
  assume "mset xs = mset ys"
  then have "mset (map f xs) = mset (map f ys)"
    by simp
  then have "sum_mset (mset (map f xs)) = sum_mset (mset (map f ys))"
    by (rule arg_cong)
  then show ?thesis
    by (simp only: sum_mset_sum_list)
qed

lemma sum_take_drop:
  fixes f :: "'a \<Rightarrow> rat"
  shows "sum_list (map f (take n xs)) + sum_list (map f (drop n xs)) = sum_list (map f xs)"
proof -
  have "sum_list (map f (take n xs @ drop n xs)) =
      sum_list (map f (take n xs)) + sum_list (map f (drop n xs))"
    by (simp only: map_append sum_list.append)
  then show ?thesis
    by (simp only: append_take_drop_id)
qed

text \<open>
  Where no expense has, after trimming, a description that is an inherited
  property name, the values of the top expenses are numbers and add up to the
  total expense; the list never has more than six entries.
\<close>

lemma topExpenses_sum:
  assumes "\<forall>t \<in> set ts. t_type t = EXPENSE
    \<longrightarrow> trim (t_description t) \<notin> set objectPrototypeKeys"
  shows "valuesSum (topExpenses ts) = Num (rd_totalExpense (reportData ts))"
proof -
  let ?ex = "filter (\<lambda>t. t_type t = EXPENSE) ts"
  let ?mk = "\<lambda>(name, v). \<lparr> i_name = name, i_value = v \<rparr>"
  let ?f = "\<lambda>i. numOf (i_value i)"
  define obj where "obj = byItem ?ex"
  define sorted where "sorted = sortBy byValueDesc (map ?mk (entries obj))"
  have keys: "\<forall>t \<in> set ?ex. trim (t_description t) \<notin> set objectPrototypeKeys"
    using assms by simp
  have "list_all (\<lambda>e. isNum (snd e)) ([] :: jsobject)"
    by simp
  from byItem_fold_num [OF this keys]
  have objNum: "list_all (\<lambda>e. isNum (snd e)) obj"
    and objSum: "sum_list (map (\<lambda>e. numOf (snd e)) obj) = sum_list (map t_amount ?ex)"
    by (simp_all add: byItem_def obj_def)
  have perm: "mset sorted = mset (map ?mk obj)"
    by (simp add: sorted_def mset_sortBy mset_entries)
  have "set sorted = set (map ?mk obj)"
    using perm by (rule mset_eq_setD)
  with objNum have sortedNum: "list_all (\<lambda>i. isNum (i_value i)) sorted"
    by (auto simp: list_all_iff)
  have "sum_list (map ?f sorted) = sum_list (map ?f (map ?mk obj))"
    using perm by (rule sum_list_mset_cong)
  also have "\<dots> = sum_list (map (\<lambda>e. numOf (snd e)) obj)"
    by (simp add: comp_def case_prod_beta)
  finally have sortedSum: "sum_list (map ?f sorted) = sum_list (map t_amount ?ex)"
    using objSum by simp
  have total: "rd_totalExpense (reportData ts) = sum_list (map t_amount ?ex)"
    by (simp add: reportData_totals)
  have unfold: "topExpenses ts =
      (if length sorted > 5
       then take 5 sorted @
            [\<lparr> i_name = ''Others'',
               i_value = foldl (\<lambda>s i. plusValue s (i_value i)) (Num 0) (drop 5 sorted) \<rparr>]
       else sorted)"
    by (simp add: topExpenses_def Let_def sorted_def obj_def)
  show ?thesis
  proof (cases "length sorted > 5")
    case False
    then have "topExpenses ts = sorted"
      by (simp add: unfold)
    with foldl_plusValue_num [OF sortedNum, of 0] sortedSum total show ?thesis
      by (simp add: valuesSum_def)
  next
    case True
    have topNum: "list_all (\<lambda>i. isNum (i_value i)) (take 5 sorted)"
      using sortedNum by (auto simp: list_all_iff dest: in_set_takeD)
    have restNum: "list_all (\<lambda>i. isNum (i_value i)) (drop 5 sorted)"
      using sortedNum by (auto simp: list_all_iff dest: in_set_dropD)
    have other: "foldl (\<lambda>s i. plusValue s (i_value i)) (Num 0) (drop 5 sorted)
        = Num (sum_list (map ?f (drop 5 sorted)))"
      using foldl_plusValue_num [OF restNum, of 0] by simp
    have top: "topExpenses ts =
        take 5 sorted @ [\<lparr> i_name = ''Others'', i_value = Num (sum_list (map ?f (drop 5 sorted))) \<rparr>]"
      using True other by (simp add: unfold)
    have "valuesSum (topExpenses ts) =
        plusValue (foldl (\<lambda>s i. plusValue s (i_value i)) (Num 0) (take 5 sorted))
          (Num (sum_list (map ?f (drop 5 sorted))))"
      unfolding top valuesSum_def by simp
    also have "\<dots> = Num (sum_list (map ?f (take 5 sorted)) + sum_list (map ?f (drop 5 sorted)))"
      using foldl_plusValue_num [OF topNum, of 0] by simp
    also have "\<dots> = Num (sum_list (map ?f sorted))"
      by (simp only: sum_take_drop)
    finally show ?thesis
      using sortedSum total by simp
  qed
qed

lemma reportData_scenario:
  "rd_topExpenses (reportData sampleTransactions) = [\<lparr> i_name = ''Lunch'', i_value = Num 80 \<rparr>]"
  by (simp add: sampleTransactions_def reportData_def Let_def topExpenses_def byItem_def
      byItemStep_def trim_def isWhiteSpace_def getProperty_def objectPrototypeKeys_def
      setProperty_def entries_def sortBy_def isArrayIndex_def isDigit_def)

text \<open>
  C3 at a description that is an inherited property name. A single expense of
  50 described as \<^verbatim>\<open>__proto__\<close>: the grouping reads the prototype object, adds
  50 to it as a text, and the assignment stores nothing. The list of top
  expenses is empty, so its values sum to 0, while the total expense is 50.
\<close>

theorem topExpenses_proto_lost:
  "rd_topExpenses (reportData protoExpense) = []
   \<and> rd_totalExpense (reportData protoExpense) = 50"
  by (simp add: protoExpense_def reportData_def Let_def topExpenses_def byItem_def
      byItemStep_def trim_def isWhiteSpace_def getProperty_def objectPrototypeKeys_def
      setProperty_def entries_def sortBy_def sumAmounts_def)

section \<open>Properties of the offline store\<close>

lemma savedTransactions_stored:
  "savedTransactions (st\<lparr> pocketbook_data := Some txs \<rparr>) = txs"
  by (simp add: savedTransactions_def)

text \<open>
  C6. Deleting an identifier that no stored transaction has leaves the stored
  collection as it was (and the stored profile); when the key of the collection
  is present the whole storage is unchanged, and deleting twice is deleting once.
\<close>

theorem deleteTransaction_absent:
  assumes "i \<notin> t_id ` set (savedTransactions st)"
  shows "savedTransactions (deleteTransaction i st) = savedTransactions st
    \<and> pocketbook_user (deleteTransaction i st) = pocketbook_user st
    \<and> (pocketbook_data st \<noteq> None \<longrightarrow> deleteTransaction i st = st)
    \<and> deleteTransaction i (deleteTransaction i st) = deleteTransaction i st"
proof -
  have keep: "filter (\<lambda>t. t_id t \<noteq> i) (savedTransactions st) = savedTransactions st"
    using assms by (auto simp: filter_id_conv)
  have saved: "savedTransactions (deleteTransaction i st) = savedTransactions st"
    by (simp add: deleteTransaction_def Let_def keep savedTransactions_stored)
  have user: "pocketbook_user (deleteTransaction i st) = pocketbook_user st"
    by (simp add: deleteTransaction_def Let_def)
  have same: "pocketbook_data st \<noteq> None \<longrightarrow> deleteTransaction i st = st"
  proof
    assume "pocketbook_data st \<noteq> None"
    then obtain txs where txs: "pocketbook_data st = Some txs"
      by auto
    then have "savedTransactions st = txs"
      by (simp add: savedTransactions_def)
    with keep txs show "deleteTransaction i st = st"
      by (simp add: deleteTransaction_def Let_def)
  qed
  have twice: "deleteTransaction i (deleteTransaction i st) = deleteTransaction i st"
    by (simp add: deleteTransaction_def Let_def savedTransactions_stored)
  from saved user same twice show ?thesis
    by blast
qed

theorem deleteTransaction_absent_witness:
  "savedTransactions (deleteTransaction ''zz'' sampleStorage) = sampleTransactions
   \<and> deleteTransaction ''zz'' sampleStorage = sampleStorage"
proof -
  have absent: "''zz'' \<notin> t_id ` set (savedTransactions sampleStorage)"
    by (simp add: sampleStorage_def savedTransactions_def sampleTransactions_def)
  have present: "pocketbook_data sampleStorage \<noteq> None"
    by (simp add: sampleStorage_def)
  have saved: "savedTransactions sampleStorage = sampleTransactions"
    by (simp add: sampleStorage_def savedTransactions_def)
  show ?thesis
    using deleteTransaction_absent [OF absent] present saved by simp
qed

text \<open>
  C9. Login in offline mode succeeds with the stored profile whenever the
  identifier is the profile's name or its guardian email, it fails exactly when
  no stored profile matches the identifier, and the password plays no part.
\<close>

theorem loginUser_ignores_password:
  "(\<forall>u. pocketbook_user st = Some u \<and> (name u = ident \<or> guardianEmail u = Some ident)
        \<longrightarrow> loginUser st ident pw = Inr u)
   \<and> ((\<exists>e. loginUser st ident pw = Inl e) \<longleftrightarrow>
        \<not> (\<exists>u. pocketbook_user st = Some u \<and> (name u = ident \<or> guardianEmail u = Some ident)))
   \<and> loginUser st ident pw = loginUser st ident pw'"
proof (cases "pocketbook_user st")
  case None
  then show ?thesis
    by (simp add: loginUser_def)
next
  case (Some user)
  show ?thesis
  proof (cases "name user = ident \<or> guardianEmail user = Some ident")
    case True
    with Some have "loginUser st ident pw = Inr user" "loginUser st ident pw' = Inr user"
      by (simp_all add: loginUser_def)
    with Some True show ?thesis
      by auto
  next
    case False
    with Some have "loginUser st ident pw =
        Inl (Error ''Offline user not found or password mismatch.'')"
      "loginUser st ident pw' = Inl (Error ''Offline user not found or password mismatch.'')"
      by (simp_all add: loginUser_def)
    with Some False show ?thesis
      by auto
  qed
qed

theorem loginUser_ignores_password_witness:
  "loginUser sampleStorage ''Mei'' ''wrong password'' = Inr sampleProfile
   \<and> loginUser sampleStorage ''parent@example.com'' [] = Inr sampleProfile
   \<and> loginUser sampleStorage ''Ann'' ''secret1'' =
       Inl (Error ''Offline user not found or password mismatch.'')"
proof -
  have stored: "pocketbook_user sampleStorage = Some sampleProfile"
    by (simp add: sampleStorage_def)
  have fields: "name sampleProfile = ''Mei''"
    "guardianEmail sampleProfile = Some ''parent@example.com''"
    by (simp_all add: sampleProfile_def)
  have a: "loginUser sampleStorage ''Mei'' ''wrong password'' = Inr sampleProfile"
    using loginUser_ignores_password [of sampleStorage "''Mei''" "''wrong password''"]
      stored fields by simp
  have b: "loginUser sampleStorage ''parent@example.com'' [] = Inr sampleProfile"
    using loginUser_ignores_password [of sampleStorage "''parent@example.com''" "[]"]
      stored fields by simp
  have c: "loginUser sampleStorage ''Ann'' ''secret1'' =
      Inl (Error ''Offline user not found or password mismatch.'')"
    by (simp add: loginUser_def stored fields)
  from a b c show ?thesis
    by simp
qed

text \<open>
  C10. Updating in offline mode keeps the length of the stored collection and
  every position: the transaction at a position is unchanged when its identifier
  differs from the given one, and is the merged transaction otherwise. When no
  transaction has the given identifier the collection is unchanged. The stored
  profile is not touched.
\<close>

theorem updateTransaction_frame:
  "length (savedTransactions (updateTransaction i d st)) = length (savedTransactions st)
   \<and> (\<forall>k < length (savedTransactions st).
         t_id (savedTransactions st ! k) \<noteq> i
         \<longrightarrow> savedTransactions (updateTransaction i d st) ! k = savedTransactions st ! k)
   \<and> (\<forall>k < length (savedTransactions st).
         t_id (savedTransactions st ! k) = i
         \<longrightarrow> savedTransactions (updateTransaction i d st) ! k
               = spread (savedTransactions st ! k) d)
   \<and> (i \<notin> t_id ` set (savedTransactions st)
        \<longrightarrow> savedTransactions (updateTransaction i d st) = savedTransactions st)
   \<and> pocketbook_user (updateTransaction i d st) = pocketbook_user st"
proof -
  let ?old = "savedTransactions st"
  have new: "savedTransactions (updateTransaction i d st) =
      map (\<lambda>t. if t_id t = i then spread t d else t) ?old"
    by (simp add: updateTransaction_def Let_def savedTransactions_stored)
  have none: "i \<notin> t_id ` set ?old \<longrightarrow> map (\<lambda>t. if t_id t = i then spread t d else t) ?old = ?old"
    by (auto intro!: map_idI)
  have user: "pocketbook_user (updateTransaction i d st) = pocketbook_user st"
    by (simp add: updateTransaction_def Let_def)
  from none user show ?thesis
    unfolding new by simp
qed

theorem updateTransaction_frame_witness:
  "savedTransactions
     (updateTransaction ''b''
        \<lparr> p_id = None, p_date = None, p_description = Some ''Dinner'', p_amount = Some 35,
          p_type = None \<rparr> sampleStorage) =
     [\<lparr> t_id = ''a'', t_date = ''2024-01-10'', t_description = ''Lunch'', t_amount = 50,
        t_type = EXPENSE \<rparr>,
      \<lparr> t_id = ''b'', t_date = ''2024-01-09'', t_description = ''Dinner'', t_amount = 35,
        t_type = EXPENSE \<rparr>,
      \<lparr> t_id = ''c'', t_date = ''2024-01-09'', t_description = ''Allowance'', t_amount = 200,
        t_type = INCOME \<rparr>]
   \<and> savedTransactions
       (updateTransaction ''zz''
          \<lparr> p_id = None, p_date = None, p_description = Some ''Dinner'', p_amount = Some 35,
            p_type = None \<rparr> sampleStorage) = sampleTransactions"
proof -
  let ?d = "\<lparr> p_id = None, p_date = None, p_description = Some ''Dinner'', p_amount = Some 35,
            p_type = None \<rparr>"
  have saved: "savedTransactions sampleStorage = sampleTransactions"
    by (simp add: sampleStorage_def savedTransactions_def)
  have absent: "''zz'' \<notin> t_id ` set (savedTransactions sampleStorage)"
    by (simp add: saved sampleTransactions_def)
  have unchanged: "savedTransactions (updateTransaction ''zz'' ?d sampleStorage) = sampleTransactions"
    using updateTransaction_frame [of "''zz''" ?d sampleStorage] absent saved by simp
  have changed: "savedTransactions (updateTransaction ''b'' ?d sampleStorage) =
     [\<lparr> t_id = ''a'', t_date = ''2024-01-10'', t_description = ''Lunch'', t_amount = 50,
        t_type = EXPENSE \<rparr>,
      \<lparr> t_id = ''b'', t_date = ''2024-01-09'', t_description = ''Dinner'', t_amount = 35,
        t_type = EXPENSE \<rparr>,
      \<lparr> t_id = ''c'', t_date = ''2024-01-09'', t_description = ''Allowance'', t_amount = 200,
        t_type = INCOME \<rparr>]"
    by (simp add: updateTransaction_def Let_def saved savedTransactions_stored
        sampleTransactions_def spread_def)
  from changed unchanged show ?thesis
    by simp
qed

section \<open>Properties of transaction creation\<close>

lemmas text_defs = trim_def isWhiteSpace_def startsWith_def isDigit_def digitValue_def
  digitsValue_def plainChar_def

lemma scale10_nonneg: "0 \<le> x \<Longrightarrow> 0 \<le> scale10 x e"
  by (simp add: scale10_def)

lemma parseFloat_nonneg:
  assumes "parseFloat s = Some r"
    and "\<not> startsWith (dropWhile isWhiteSpace s) ''-''"
  shows "0 \<le> r"
proof -
  define s2 where "s2 = (if startsWith (dropWhile isWhiteSpace s) ''+''
    then tl (dropWhile isWhiteSpace s) else dropWhile isWhiteSpace s)"
  define r1 where "r1 = dropWhile isDigit s2"
  define fp where "fp = (if startsWith r1 ''.'' then takeWhile isDigit (tl r1) else [])"
  define r2 where "r2 = (if startsWith r1 ''.'' then dropWhile isDigit (tl r1) else r1)"
  define m where "m =
    scale10 (of_nat (digitsValue (takeWhile isDigit s2 @ fp)) / 10 ^ length fp) (exponentOf r2)"
  have "0 \<le> m"
    unfolding m_def by (intro scale10_nonneg) simp
  moreover from assms have "r = m"
    by (simp add: parseFloat_def Let_def s2_def r1_def fp_def r2_def m_def split: if_splits)
  ultimately show ?thesis
    by simp
qed

text \<open>
  C5, as the code has it. A manual entry that is saved puts one new transaction
  at the front of the stored collection, under the fresh identifier, and its
  amount is the number \<open>parseFloat\<close> reads from the amount text: no check of the
  sign is made, and the amount is not negative when the text, after leading white
  space, does not start with a minus sign. A transaction parsed by the AI service
  carries the amount the service returned.
\<close>

theorem created_amount:
  "(\<forall>st'. manualEntry uuid f st = Some st'
        \<longrightarrow> (\<exists>t. savedTransactions st' = t # savedTransactions st
                 \<and> t_id t = uuid
                 \<and> parseFloat (fm_amount f) = Some (t_amount t)
                 \<and> (\<not> startsWith (dropWhile isWhiteSpace (fm_amount f)) ''-''
                      \<longrightarrow> 0 \<le> t_amount t)))
   \<and> (\<forall>json p. parseTransactionFromText (Some json) = Some p
        \<longrightarrow> j_amount json = Some (pt_amount p))"
proof -
  have manual: "\<forall>st'. manualEntry uuid f st = Some st'
        \<longrightarrow> (\<exists>t. savedTransactions st' = t # savedTransactions st
                 \<and> t_id t = uuid
                 \<and> parseFloat (fm_amount f) = Some (t_amount t)
                 \<and> (\<not> startsWith (dropWhile isWhiteSpace (fm_amount f)) ''-''
                      \<longrightarrow> 0 \<le> t_amount t))"
  proof (intro allI impI)
    fix st'
    assume entry: "manualEntry uuid f st = Some st'"
    then obtain d where d: "handleManualSubmit f = Some d"
      and save: "handleSaveTransaction None uuid d st = Some st'"
      by (auto simp: manualEntry_def split: option.splits)
    from d have amt: "e_amount d = parseFloat (fm_amount f)"
      by (auto simp: handleManualSubmit_def split: if_splits)
    from save obtain a where a: "e_amount d = Some a"
      and st': "st' = snd (addTransaction uuid
          \<lparr> n_date = e_date d, n_description = e_description d, n_amount = a,
            n_type = e_type d \<rparr> st)"
      by (auto simp: handleSaveTransaction_def split: option.splits)
    let ?t = "\<lparr> t_id = uuid, t_date = e_date d, t_description = e_description d,
                t_amount = a, t_type = e_type d \<rparr>"
    have "savedTransactions st' = ?t # savedTransactions st"
      by (simp add: st' addTransaction_def Let_def savedTransactions_stored)
    moreover have "parseFloat (fm_amount f) = Some (t_amount ?t)"
      using amt a by simp
    moreover have "\<not> startsWith (dropWhile isWhiteSpace (fm_amount f)) ''-''
        \<longrightarrow> 0 \<le> t_amount ?t"
      using parseFloat_nonneg [of "fm_amount f" a] amt a by simp
    ultimately show "\<exists>t. savedTransactions st' = t # savedTransactions st
                 \<and> t_id t = uuid
                 \<and> parseFloat (fm_amount f) = Some (t_amount t)
                 \<and> (\<not> startsWith (dropWhile isWhiteSpace (fm_amount f)) ''-''
                      \<longrightarrow> 0 \<le> t_amount t)"
      by (intro exI [of _ ?t]) simp
  qed
  have ai: "\<forall>json p. parseTransactionFromText (Some json) = Some p
        \<longrightarrow> j_amount json = Some (pt_amount p)"
    by (auto simp: parseTransactionFromText_def split: option.splits if_splits)
  from manual ai show ?thesis
    by blast
qed

lemma lunchForm_saved:
  "manualEntry ''id-1'' lunchForm emptyStorage =
     Some \<lparr> pocketbook_user = None,
            pocketbook_data =
              Some [\<lparr> t_id = ''id-1'', t_date = ''2024-01-10'', t_description = ''Lunch'',
                      t_amount = 25 / 2, t_type = EXPENSE \<rparr>] \<rparr>"
  by (simp add: manualEntry_def lunchForm_def emptyStorage_def handleManualSubmit_def
      handleSaveTransaction_def addTransaction_def savedTransactions_def Let_def
      parseFloat_def exponentOf_def scale10_def text_defs)

theorem created_amount_witness:
  "\<exists>st' t. manualEntry ''id-1'' lunchForm emptyStorage = Some st'
     \<and> savedTransactions st' = [t] \<and> t_amount t = 25 / 2 \<and> 0 \<le> t_amount t"
proof -
  let ?st = "\<lparr> pocketbook_user = None,
            pocketbook_data =
              Some [\<lparr> t_id = ''id-1'', t_date = ''2024-01-10'', t_description = ''Lunch'',
                      t_amount = 25 / 2, t_type = EXPENSE \<rparr>] \<rparr>"
  have unsigned: "\<not> startsWith (dropWhile isWhiteSpace (fm_amount lunchForm)) ''-''"
    by (simp add: lunchForm_def text_defs)
  have empty: "savedTransactions emptyStorage = []"
    by (simp add: emptyStorage_def savedTransactions_def)
  from created_amount [of "''id-1''" lunchForm emptyStorage] lunchForm_saved unsigned empty
  obtain t where t: "savedTransactions ?st = [t]" "0 \<le> t_amount t"
    by auto
  then have "t_amount t = 25 / 2"
    by (auto simp: savedTransactions_def)
  with t lunchForm_saved show ?thesis
    by blast
qed

text \<open>
  C5 as stated fails. The amount text \<^verbatim>\<open>-5\<close>, which the number input of the form
  accepts, is stored as the amount -5; a response of the AI service with the
  amount -5 is returned with that amount.
\<close>

theorem negative_amount_counterexample:
  "map_option (\<lambda>st. map t_amount (savedTransactions st))
     (manualEntry ''id-1'' refundForm emptyStorage) = Some [- 5]
   \<and> map_option pt_amount (parseTransactionFromText (Some refundJson)) = Some (- 5)"
  by (simp add: manualEntry_def refundForm_def emptyStorage_def handleManualSubmit_def
      handleSaveTransaction_def addTransaction_def savedTransactions_def Let_def
      parseFloat_def exponentOf_def scale10_def text_defs parseTransactionFromText_def
      refundJson_def)

section \<open>Properties of registration\<close>

text \<open>Without validation errors the age input is a number from 5 to 100.\<close>

lemma registerErrors_age:
  assumes "registerErrors f = []"
  shows "\<exists>n. parseInt (in_ageInput f) = Some n \<and> 5 \<le> n \<and> n \<le> 100"
proof (cases "parseInt (in_ageInput f)")
  case None
  with assms show ?thesis
    by (simp add: registerErrors_def Let_def split: if_splits)
next
  case (Some n)
  with assms show ?thesis
    by (simp add: registerErrors_def Let_def split: if_splits)
qed

text \<open>
  The errors a submission shows are never empty: the branch of \<open>handleSubmit\<close> for
  an age that is not a number is not reached once the validation found no error.
\<close>

lemma handleSubmit_errors_nonempty:
  assumes "handleSubmit newDisplayId f = SetErrors errs"
  shows "errs \<noteq> []"
proof (cases "isLoginMode f")
  case True
  with assms show ?thesis
    by (auto simp: handleSubmit_def split: if_splits)
next
  case False
  show ?thesis
  proof (cases "registerErrors f = []")
    case True
    then obtain n where "parseInt (in_ageInput f) = Some n"
      using registerErrors_age by blast
    with assms False True show ?thesis
      by (simp add: handleSubmit_def Let_def)
  next
    case nonempty: False
    with assms False show ?thesis
      by (auto simp: handleSubmit_def Let_def)
  qed
qed

text \<open>
  C7. In a profile that registration produces, a guardian email or a guardian
  phone is present only when the age is at most 17; for an age above 17 both are
  absent. (The age of such a profile is between 5 and 100.)
\<close>

theorem registration_guardian_only_underage:
  assumes "handleSubmit newDisplayId f = CallRegisterUser p"
  shows "((guardianEmail p \<noteq> None \<or> guardianPhone p \<noteq> None) \<longrightarrow> age p \<le> 17)
    \<and> (17 < age p \<longrightarrow> guardianEmail p = None \<and> guardianPhone p = None)
    \<and> 5 \<le> age p \<and> age p \<le> 100"
proof -
  from assms have reg: "\<not> isLoginMode f"
    by (auto simp: handleSubmit_def split: if_splits)
  from assms reg have noErr: "registerErrors f = []"
    by (auto simp: handleSubmit_def Let_def split: if_splits)
  then obtain n where n: "parseInt (in_ageInput f) = Some n" "5 \<le> n" "n \<le> 100"
    using registerErrors_age by blast
  from assms reg noErr n have p: "age p = n"
    "guardianEmail p =
       (if n \<le> 17 \<and> in_guardianEmail f \<noteq> [] then Some (in_guardianEmail f) else None)"
    "guardianPhone p =
       (if n \<le> 17 \<and> in_guardianPhone f \<noteq> [] then Some (in_guardianPhone f) else None)"
    by (auto simp: handleSubmit_def Let_def)
  from p n show ?thesis
    by (auto split: if_splits)
qed

lemma underageForm_registers:
  "handleSubmit ''12345678'' underageForm = CallRegisterUser sampleProfile"
  by (simp add: handleSubmit_def underageForm_def registerErrors_def Let_def parseInt_def
      emailRegexTest_def text_defs sampleProfile_def)

lemma adultForm_registers:
  "handleSubmit ''87654321'' adultForm =
     CallRegisterUser
       \<lparr> uid = None, displayId = ''87654321'', name = ''Ann'', avatar = None,
         password = ''secret2'', age = 30, guardianEmail = None, guardianPhone = None,
         reportFrequency = None, currency = None \<rparr>"
  by (simp add: handleSubmit_def adultForm_def registerErrors_def Let_def parseInt_def
      emailRegexTest_def text_defs)

theorem registration_guardian_only_underage_witness:
  "handleSubmit ''12345678'' underageForm = CallRegisterUser sampleProfile
   \<and> guardianEmail sampleProfile = Some ''parent@example.com''
   \<and> age sampleProfile \<le> 17
   \<and> (\<exists>p. handleSubmit ''87654321'' adultForm = CallRegisterUser p \<and> age p = 30
          \<and> guardianEmail p = None \<and> guardianPhone p = None)"
proof -
  have a: "guardianEmail sampleProfile = Some ''parent@example.com''"
    by (simp add: sampleProfile_def)
  have b: "age sampleProfile \<le> 17"
    using registration_guardian_only_underage [OF underageForm_registers] a by simp
  let ?p = "\<lparr> uid = None, displayId = ''87654321'', name = ''Ann'', avatar = None,
         password = ''secret2'', age = 30, guardianEmail = None, guardianPhone = None,
         reportFrequency = None, currency = None \<rparr>"
  have c: "guardianEmail ?p = None \<and> guardianPhone ?p = None"
    using registration_guardian_only_underage [OF adultForm_registers] by simp
  have d: "\<exists>p. handleSubmit ''87654321'' adultForm = CallRegisterUser p \<and> age p = 30
          \<and> guardianEmail p = None \<and> guardianPhone p = None"
    using adultForm_registers c by (intro exI [of _ ?p]) simp
  from underageForm_registers a b d show ?thesis
    by blast
qed

text \<open>
  A registration whose age input is read by \<open>parseInt\<close> as a number of 17 or less,
  with a guardian email and a guardian phone that are both empty after trimming,
  shows the error of the guardian section and stops: \<open>registerUser\<close> is not
  called, no profile is built.
\<close>

lemma guardianSection_required:
  assumes "\<not> isLoginMode f"
    and "parseInt (in_ageInput f) = Some n" and "n \<le> 17"
    and "trim (in_guardianEmail f) = []" and "trim (in_guardianPhone f) = []"
  shows "\<exists>errs. handleSubmit newDisplayId f = SetErrors errs
    \<and> map_of errs ''guardianSection'' = Some ''Please provide either an email or phone number.''"
proof -
  let ?msg = "''Please provide either an email or phone number.''"
  have "map_of (registerErrors f) ''guardianSection'' = Some ?msg"
    using assms by (simp add: registerErrors_def Let_def)
  moreover from this have "registerErrors f \<noteq> []"
    by auto
  ultimately show ?thesis
    using assms(1) by (simp add: handleSubmit_def Let_def)
qed

lemma guardianSection_required_sample:
  "handleSubmit ''12345678'' noGuardianForm =
     SetErrors [(''guardianSection'', ''Please provide either an email or phone number.'')]
   \<and> (\<exists>errs. handleSubmit ''12345678'' noGuardianForm = SetErrors errs
         \<and> map_of errs ''guardianSection'' =
             Some ''Please provide either an email or phone number.'')"
proof -
  have mode: "\<not> isLoginMode noGuardianForm"
    by (simp add: noGuardianForm_def)
  have num: "parseInt (in_ageInput noGuardianForm) = Some 16"
    by (simp add: noGuardianForm_def parseInt_def Let_def text_defs)
  have email: "trim (in_guardianEmail noGuardianForm) = []"
    by (simp add: noGuardianForm_def text_defs)
  have phone: "trim (in_guardianPhone noGuardianForm) = []"
    by (simp add: noGuardianForm_def text_defs)
  have errors: "registerErrors noGuardianForm =
      [(''guardianSection'', ''Please provide either an email or phone number.'')]"
    by (simp add: registerErrors_def Let_def noGuardianForm_def parseInt_def text_defs)
  have shown: "handleSubmit ''12345678'' noGuardianForm =
      SetErrors [(''guardianSection'', ''Please provide either an email or phone number.'')]"
    by (simp add: handleSubmit_def Let_def mode errors)
  from guardianSection_required [OF mode num _ email phone, of "''12345678''"] shown
  show ?thesis
    by simp
qed

text \<open>
  C8 at an age in exponent notation. The age field is a number input, and the
  text \<^verbatim>\<open>50e-1\<close> is the number 5 there (as \<open>parseFloat\<close> reads it), an age under
  17; \<open>parseInt\<close> reads the digits before the letter, 50. With no guardian email
  and no guardian phone the submission shows no error and calls \<open>registerUser\<close>
  with a profile of age 50 without guardian contact.
\<close>

theorem exponent_age_registers:
  "parseFloat (in_ageInput exponentAgeForm) = Some 5
   \<and> parseInt (in_ageInput exponentAgeForm) = Some 50
   \<and> trim (in_guardianEmail exponentAgeForm) = []
   \<and> trim (in_guardianPhone exponentAgeForm) = []
   \<and> handleSubmit ''12345678'' exponentAgeForm =
       CallRegisterUser
         \<lparr> uid = None, displayId = ''12345678'', name = ''Mei'', avatar = None,
           password = ''secret1'', age = 50, guardianEmail = None, guardianPhone = None,
           reportFrequency = None, currency = None \<rparr>"
proof -
  have f: "parseFloat (in_ageInput exponentAgeForm) = Some 5"
    by (simp add: exponentAgeForm_def parseFloat_def exponentOf_def scale10_def Let_def
        text_defs)
  have i: "parseInt (in_ageInput exponentAgeForm) = Some 50"
    by (simp add: exponentAgeForm_def parseInt_def Let_def text_defs)
  have g: "trim (in_guardianEmail exponentAgeForm) = []"
    "trim (in_guardianPhone exponentAgeForm) = []"
    by (simp_all add: exponentAgeForm_def text_defs)
  have none: "registerErrors exponentAgeForm = []"
    by (simp add: registerErrors_def Let_def exponentAgeForm_def parseInt_def text_defs)
  have mode: "\<not> isLoginMode exponentAgeForm"
    by (simp add: exponentAgeForm_def)
  have h: "handleSubmit ''12345678'' exponentAgeForm =
       CallRegisterUser
         \<lparr> uid = None, displayId = ''12345678'', name = ''Mei'', avatar = None,
           password = ''secret1'', age = 50, guardianEmail = None, guardianPhone = None,
           reportFrequency = None, currency = None \<rparr>"
    using i by (simp add: handleSubmit_def Let_def mode none) (simp add: exponentAgeForm_def)
  from f i g h show ?thesis
    by simp
qed

end
